theory Spec2Isabelle
  imports Complex_Main
begin

section \<open>Data model\<close>

text \<open>
  A word and a game identifier are Python strings. A pattern is the base-3 feedback code
  of a guess against an answer. A pattern matrix is a rectangular two-dimensional array,
  given as the list of its rows (row = guess, column = answer). Python floats are
  idealised as real numbers throughout.
\<close>

type_synonym word = string
type_synonym game = string
type_synonym pattern = nat
type_synonym matrix = "pattern list list"

text \<open>The exceptions the two modules can raise.\<close>

datatype error = ValueError | KeyError | IndexError | FileNotFoundError

text \<open>
  \<open>PATTERN_GRID_DATA\<close> is a module-level dictionary that is either empty or holds the
  keys \<open>"grid"\<close> and \<open>"words_to_index"\<close>. Each key is an optional field; the dictionary
  is empty when both are absent.
\<close>

record grid_data =
  grid :: "matrix option"
  words_to_index :: "(word \<rightharpoonup> nat) option"

text \<open>
  The process state: the module-level dictionary, and the durable storage that
  \<open>np.save\<close> writes and \<open>np.load\<close> reads, as a map from file names to arrays. A file
  name is taken to be one that \<open>np.save\<close> writes as it is given (it ends in \<open>.npy\<close>), so
  that \<open>np.load\<close> of the same name finds what was saved.
\<close>

record state =
  PATTERN_GRID_DATA :: grid_data
  files :: "string \<rightharpoonup> matrix"

text \<open>A call returns a value or raises, and leaves a state behind in both cases.\<close>

type_synonym 'a res = "(error + 'a) \<times> state"

section \<open>Collaborators outside the two modules\<close>

text \<open>
  \<open>pattern.py\<close> and \<open>solver.py\<close> import the word-list loader, the cache file naming,
  the block-wise matrix builder, the pattern encoder and the entropy engine from modules
  that are not part of the verified sources, and sort with \<open>np.argsort\<close>, whose order
  among equal keys is not fixed. They are the fields of an environment; every theorem
  below holds for every environment. An entropy-engine function, like every caller of
  \<open>get_pattern_matrix\<close>, may read and populate the cache and may raise.
\<close>

record env =
  get_word_list :: "game \<Rightarrow> word list"
  get_pattern_matrix_fname :: "game \<Rightarrow> string"
  generate_full_pattern_matrix_in_blocks :: "word list \<Rightarrow> matrix"
  generate_pattern_matrix :: "word list \<Rightarrow> word list \<Rightarrow> matrix"
  entropy_of_distributions :: "real list \<Rightarrow> real"
  get_entropies :: "word list \<Rightarrow> word list \<Rightarrow> real list \<Rightarrow> game \<Rightarrow> state \<Rightarrow> real list res"
  get_pattern_distributions ::
    "word list \<Rightarrow> word list \<Rightarrow> real list \<Rightarrow> game \<Rightarrow> state \<Rightarrow> real list list res"
  get_bucket_counts :: "word list \<Rightarrow> word list \<Rightarrow> game \<Rightarrow> state \<Rightarrow> nat list res"
  np_argsort :: "real list \<Rightarrow> nat list"

section \<open>pattern.py\<close>

subsection \<open>Sequencing of calls that may raise\<close>

definition returnM :: "'a \<Rightarrow> state \<Rightarrow> 'a res" where
  "returnM x st = (Inr x, st)"

definition raiseM :: "error \<Rightarrow> state \<Rightarrow> 'a res" where
  "raiseM e st = (Inl e, st)"

definition bindM :: "(state \<Rightarrow> 'a res) \<Rightarrow> ('a \<Rightarrow> state \<Rightarrow> 'b res) \<Rightarrow> state \<Rightarrow> 'b res" where
  "bindM m f st = (case m st of (Inl e, st') \<Rightarrow> (Inl e, st') | (Inr x, st') \<Rightarrow> f x st')"

definition liftE :: "error + 'a \<Rightarrow> state \<Rightarrow> 'a res" where
  "liftE r st = (r, st)"

text \<open>A list comprehension whose body may raise: left to right, stopping at the first error.\<close>

fun mapM :: "('a \<Rightarrow> state \<Rightarrow> 'b res) \<Rightarrow> 'a list \<Rightarrow> state \<Rightarrow> 'b list res" where
  "mapM f [] st = (Inr [], st)"
| "mapM f (x # xs) st =
     (case f x st of
        (Inl e, st') \<Rightarrow> (Inl e, st')
      | (Inr y, st') \<Rightarrow>
          (case mapM f xs st' of
             (Inl e, st'') \<Rightarrow> (Inl e, st'')
           | (Inr ys, st'') \<Rightarrow> (Inr (y # ys), st'')))"

subsection \<open>Array and dictionary primitives\<close>

text \<open>\<open>dict(pairs)\<close>: a later occurrence of a key overwrites an earlier one.\<close>

definition dict_of_pairs :: "('k \<times> 'v) list \<Rightarrow> ('k \<rightharpoonup> 'v)" where
  "dict_of_pairs ps = fold (\<lambda>(k, v) m. m(k \<mapsto> v)) ps Map.empty"

text \<open>\<open>dict(zip(words, itertools.count(), strict=False))\<close>.\<close>

definition dict_zip_count :: "word list \<Rightarrow> (word \<rightharpoonup> nat)" where
  "dict_zip_count ws = dict_of_pairs (zip ws [0..<length ws])"

text \<open>\<open>[d[w] for w in ws]\<close>: a missing key raises \<open>KeyError\<close>.\<close>

fun lookup_words :: "(word \<rightharpoonup> 'v) \<Rightarrow> word list \<Rightarrow> error + 'v list" where
  "lookup_words m [] = Inr []"
| "lookup_words m (w # ws) =
     (case m w of
        None \<Rightarrow> Inl KeyError
      | Some i \<Rightarrow> (case lookup_words m ws of Inl e \<Rightarrow> Inl e | Inr js \<Rightarrow> Inr (i # js)))"

definition ncols :: "matrix \<Rightarrow> nat" where
  "ncols g = (case g of [] \<Rightarrow> 0 | r # _ \<Rightarrow> length r)"

text \<open>
  \<open>full_grid[np.ix_(indices1, indices2)]\<close>: the sub-matrix of the selected rows and
  columns in the order given; an index outside the array raises \<open>IndexError\<close>.
\<close>

definition ix_select :: "matrix \<Rightarrow> nat list \<Rightarrow> nat list \<Rightarrow> error + matrix" where
  "ix_select g is js =
     (if (\<forall>i \<in> set is. i < length g) \<and> (\<forall>j \<in> set js. j < ncols g)
      then Inr (map (\<lambda>i. map (\<lambda>j. g ! i ! j) js) is)
      else Inl IndexError)"

text \<open>\<open>m[0, 0]\<close> on a two-dimensional array.\<close>

definition at00 :: "matrix \<Rightarrow> error + pattern" where
  "at00 m = (case m of (p # _) # _ \<Rightarrow> Inr p | _ \<Rightarrow> Inl IndexError)"

definition dict_is_empty :: "grid_data \<Rightarrow> bool" where
  "dict_is_empty d \<longleftrightarrow> grid d = None \<and> words_to_index d = None"

subsection \<open>The matrix cache\<close>

definition generate_full_pattern_matrix :: "env \<Rightarrow> game \<Rightarrow> state \<Rightarrow> matrix res" where
  "generate_full_pattern_matrix env game_name st =
     (let words = get_word_list env game_name;
          pattern_matrix = generate_full_pattern_matrix_in_blocks env words
      in (Inr pattern_matrix,
          st\<lparr>files := (files st)(get_pattern_matrix_fname env game_name \<mapsto> pattern_matrix)\<rparr>))"

text \<open>The body of \<open>if not PATTERN_GRID_DATA:\<close> in \<open>get_pattern_matrix\<close>.\<close>

definition populate :: "env \<Rightarrow> game \<Rightarrow> state \<Rightarrow> unit res" where
  "populate env game_name st =
     (let pattern_matrix_fname = get_pattern_matrix_fname env game_name;
          st1 = (if files st pattern_matrix_fname = None
                 then snd (generate_full_pattern_matrix env game_name st) else st)
      in case files st1 pattern_matrix_fname of
           None \<Rightarrow> (Inl FileNotFoundError, st1)
         | Some m \<Rightarrow>
             (Inr (),
              st1\<lparr>PATTERN_GRID_DATA :=
                    \<lparr>grid = Some m,
                     words_to_index = Some (dict_zip_count (get_word_list env game_name))\<rparr>\<rparr>))"

text \<open>
  The rest of \<open>get_pattern_matrix\<close>: both keys are read from the dictionary, the words
  are looked up in the index, and the sub-matrix is selected.
\<close>

definition select_patterns :: "grid_data \<Rightarrow> word list \<Rightarrow> word list \<Rightarrow> error + matrix" where
  "select_patterns d words1 words2 =
     (case grid d of
        None \<Rightarrow> Inl KeyError
      | Some full_grid \<Rightarrow>
          (case words_to_index d of
             None \<Rightarrow> Inl KeyError
           | Some w2i \<Rightarrow>
               (case lookup_words w2i words1 of
                  Inl e \<Rightarrow> Inl e
                | Inr indices1 \<Rightarrow>
                    (case lookup_words w2i words2 of
                       Inl e \<Rightarrow> Inl e
                     | Inr indices2 \<Rightarrow> ix_select full_grid indices1 indices2))))"

definition get_pattern_matrix :: "env \<Rightarrow> word list \<Rightarrow> word list \<Rightarrow> game \<Rightarrow> state \<Rightarrow> matrix res" where
  "get_pattern_matrix env words1 words2 game_name st =
     (case (if dict_is_empty (PATTERN_GRID_DATA st) then populate env game_name st
            else (Inr (), st)) of
        (Inl e, st1) \<Rightarrow> (Inl e, st1)
      | (Inr _, st1) \<Rightarrow> (select_patterns (PATTERN_GRID_DATA st1) words1 words2, st1))"

definition get_pattern :: "env \<Rightarrow> word \<Rightarrow> word \<Rightarrow> game \<Rightarrow> state \<Rightarrow> pattern res" where
  "get_pattern env guess answer game_name st =
     (if \<not> dict_is_empty (PATTERN_GRID_DATA st) then
        (case words_to_index (PATTERN_GRID_DATA st) of
           None \<Rightarrow> (Inl KeyError, st)
         | Some saved_words \<Rightarrow>
             if guess \<in> dom saved_words \<and> answer \<in> dom saved_words then
               (case get_pattern_matrix env [guess] [answer] game_name st of
                  (Inl e, st') \<Rightarrow> (Inl e, st')
                | (Inr m, st') \<Rightarrow> (at00 m, st'))
             else (at00 (generate_pattern_matrix env [guess] [answer]), st))
      else (at00 (generate_pattern_matrix env [guess] [answer]), st))"

subsection \<open>Filtering and bucketing\<close>

text \<open>
  \<open>np.array(word_list)[all_patterns == pattern]\<close> keeps the words at the positions
  where the flattened row of patterns equals \<open>pattern\<close>. The debugging prints write to the
  console only.
\<close>

definition get_possible_words :: "env \<Rightarrow> word \<Rightarrow> pattern \<Rightarrow> word list \<Rightarrow> game \<Rightarrow> state \<Rightarrow> word list res" where
  "get_possible_words env guess pattern word_list game_name st =
     (case get_pattern_matrix env [guess] word_list game_name st of
        (Inl e, st') \<Rightarrow> (Inl e, st')
      | (Inr m, st') \<Rightarrow>
          (let all_patterns = concat m;
               possible_words = map fst (filter (\<lambda>(w, p). p = pattern) (zip word_list all_patterns))
           in (Inr possible_words, st')))"

text \<open>\<open>buckets[index].append(word)\<close> on a list of \<open>3**5\<close> buckets.\<close>

fun fill_buckets :: "word list list \<Rightarrow> (pattern \<times> word) list \<Rightarrow> error + word list list" where
  "fill_buckets buckets [] = Inr buckets"
| "fill_buckets buckets ((index, w) # rest) =
     (if index < length buckets
      then fill_buckets (buckets[index := buckets ! index @ [w]]) rest
      else Inl IndexError)"

definition get_word_buckets :: "env \<Rightarrow> word \<Rightarrow> word list \<Rightarrow> game \<Rightarrow> state \<Rightarrow> word list list res" where
  "get_word_buckets env guess possible_words game_name st =
     (let buckets = replicate (3 ^ 5) [] in
      case get_pattern_matrix env [guess] possible_words game_name st of
        (Inl e, st') \<Rightarrow> (Inl e, st')
      | (Inr m, st') \<Rightarrow>
          (let hashes = concat m in
           if length hashes \<noteq> length possible_words then (Inl ValueError, st')
           else (fill_buckets buckets (zip hashes possible_words), st')))"

section \<open>solver.py\<close>

subsection \<open>List, dictionary and array primitives\<close>

text \<open>\<open>xs[i]\<close> for an index that is not negative.\<close>

definition py_index :: "'a list \<Rightarrow> nat \<Rightarrow> error + 'a" where
  "py_index xs i = (if i < length xs then Inr (xs ! i) else Inl IndexError)"

text \<open>\<open>xs[:k]\<close>: a negative \<open>k\<close> counts from the end.\<close>

definition py_take :: "int \<Rightarrow> 'a list \<Rightarrow> 'a list" where
  "py_take k xs = (if 0 \<le> k then take (nat k) xs else take (length xs - nat (- k)) xs)"

text \<open>\<open>d.get(k, default)\<close>.\<close>

definition dict_get :: "('k \<rightharpoonup> 'v) \<Rightarrow> 'k \<Rightarrow> 'v \<Rightarrow> 'v" where
  "dict_get m k d = (case m k of None \<Rightarrow> d | Some v \<Rightarrow> v)"

text \<open>\<open>dict(zip(ks, vs, strict=True))\<close>: lists of different lengths raise \<open>ValueError\<close>.\<close>

definition dict_zip_strict :: "'k list \<Rightarrow> 'v list \<Rightarrow> error + ('k \<rightharpoonup> 'v)" where
  "dict_zip_strict ks vs =
     (if length ks = length vs then Inr (dict_of_pairs (zip ks vs)) else Inl ValueError)"

text \<open>
  An arithmetic operation of two one-dimensional arrays: elementwise when the lengths
  agree, an array of length one is broadcast, any other pair of lengths raises.
\<close>

definition np_bin :: "(real \<Rightarrow> real \<Rightarrow> real) \<Rightarrow> real list \<Rightarrow> real list \<Rightarrow> error + real list" where
  "np_bin f xs ys =
     (if length xs = length ys then Inr (map2 f xs ys)
      else if length xs = 1 then Inr (map (f (hd xs)) ys)
      else if length ys = 1 then Inr (map (\<lambda>x. f x (hd ys)) xs)
      else Inl ValueError)"

text \<open>\<open>np.argmin\<close> and \<open>np.argmax\<close>: the first index of an extremal entry; an empty array raises.\<close>

definition np_argmin :: "real list \<Rightarrow> error + nat" where
  "np_argmin xs =
     (if xs = [] then Inl ValueError else Inr (arg_min_list (\<lambda>i. xs ! i) [0..<length xs]))"

definition np_argmax :: "real list \<Rightarrow> error + nat" where
  "np_argmax xs =
     (if xs = [] then Inl ValueError else Inr (arg_min_list (\<lambda>i. - (xs ! i)) [0..<length xs]))"

text \<open>\<open>a[i] = v\<close> on an array.\<close>

definition np_set :: "real list \<Rightarrow> nat \<Rightarrow> real \<Rightarrow> error + real list" where
  "np_set xs i v = (if i < length xs then Inr (xs[i := v]) else Inl IndexError)"

text \<open>A \<open>for\<close> loop that updates an accumulator and may raise.\<close>

fun foldM :: "('a \<Rightarrow> 'b \<Rightarrow> state \<Rightarrow> 'b res) \<Rightarrow> 'a list \<Rightarrow> 'b \<Rightarrow> state \<Rightarrow> 'b res" where
  "foldM f [] acc st = (Inr acc, st)"
| "foldM f (x # xs) acc st =
     (case f x acc st of
        (Inl e, st') \<Rightarrow> (Inl e, st')
      | (Inr acc', st') \<Rightarrow> foldM f xs acc' st')"

subsection \<open>Weights and the scoring heuristic\<close>

definition get_weights :: "word list \<Rightarrow> (word \<rightharpoonup> real) \<Rightarrow> error + real list" where
  "get_weights words priors =
     (case lookup_words priors words of
        Inl e \<Rightarrow> Inl e
      | Inr frequencies \<Rightarrow>
          (let total = sum_list frequencies in
           if total = 0 then Inr (replicate (length frequencies) 0)
           else Inr (map (\<lambda>f. f / total) frequencies)))"

definition entropy_to_expected_score :: "real \<Rightarrow> real" where
  "entropy_to_expected_score ent =
     (let min_score = 2 powr (- ent) + 2 * (1 - 2 powr (- ent))
      in min_score + 1.5 * ent / 11.5)"

definition get_score_lower_bounds :: "env \<Rightarrow> word list \<Rightarrow> word list \<Rightarrow> game \<Rightarrow> state \<Rightarrow> real list res" where
  "get_score_lower_bounds env allowed_words possible_words game_name st =
     (if length possible_words = 0 then (Inl ValueError, st)
      else
        bindM (get_bucket_counts env allowed_words possible_words game_name) (\<lambda>bucket_counts.
          let n = real (length possible_words);
              p1s = map (\<lambda>w. (if w \<in> set possible_words then 1 else 0) / n) allowed_words;
              fractions = map (\<lambda>c. real c / n) bucket_counts
          in bindM (liftE (np_bin (-) fractions p1s)) (\<lambda>p2s.
             let p3s = map (\<lambda>x. 1 - x) fractions
             in bindM (liftE (np_bin (+) p1s (map (\<lambda>x. 2 * x) p2s))) (\<lambda>s.
                liftE (np_bin (+) s (map (\<lambda>x. 3 * x) p3s))))) st)"

subsection \<open>Expected scores and the selector\<close>

text \<open>
  The value written to \<open>expected_scores[i]\<close> by the two-ply refinement. The strict
  \<open>zip\<close> of \<open>dist\<close> (here \<open>pdist\<close>, since \<open>dist\<close> is the metric), \<open>second_guesses\<close> and
  \<open>h2s\<close> raises on lists of different lengths.
\<close>

definition two_step_score ::
  "real \<Rightarrow> (word \<rightharpoonup> real) \<Rightarrow> real \<Rightarrow> real \<Rightarrow> real list \<Rightarrow> word list \<Rightarrow> real list \<Rightarrow> error + real" where
  "two_step_score prob word_to_weight h0 h1 pdist second_guesses h2s =
     (if length pdist \<noteq> length second_guesses \<or> length second_guesses \<noteq> length h2s
      then Inl ValueError
      else Inr (1 * prob
        + 2 * (1 - prob)
            * (\<Sum>(p, g2) \<leftarrow> zip pdist second_guesses. p * dict_get word_to_weight g2 0)
        + (1 - prob)
            * (2 + (\<Sum>(p, g2, H2) \<leftarrow> zip pdist (zip second_guesses h2s).
                     p * (1 - dict_get word_to_weight g2 0)
                       * entropy_to_expected_score (h0 - h1 - H2)))))"

function get_expected_scores ::
    "env \<Rightarrow> word list \<Rightarrow> word list \<Rightarrow> (word \<rightharpoonup> real) \<Rightarrow> game \<Rightarrow> bool \<Rightarrow> int \<Rightarrow> state \<Rightarrow> real list res"
  and optimal_guess ::
    "env \<Rightarrow> word list \<Rightarrow> word list \<Rightarrow> (word \<rightharpoonup> real) \<Rightarrow> game \<Rightarrow> bool \<Rightarrow> bool \<Rightarrow> bool \<Rightarrow> state \<Rightarrow> word res"
where
  "get_expected_scores env allowed_words possible_words priors game_name look_two_ahead
       n_top_candidates_for_two_step st =
     (if length possible_words = 0 then (Inl ValueError, st)
      else
        bindM (liftE (get_weights possible_words priors)) (\<lambda>weights.
        let h0 = entropy_of_distributions env weights in
        bindM (get_entropies env allowed_words possible_words weights game_name) (\<lambda>h1s.
        bindM (liftE (dict_zip_strict possible_words weights)) (\<lambda>word_to_weight.
        let probs = map (\<lambda>w. dict_get word_to_weight w 0) allowed_words in
        bindM (liftE (np_bin (*) (map (\<lambda>p. 1 - p) probs)
                        (map (\<lambda>h1. 1 + entropy_to_expected_score (h0 - h1)) h1s))) (\<lambda>rest.
        bindM (liftE (np_bin (+) probs rest)) (\<lambda>expected_scores.
        if \<not> look_two_ahead then returnM expected_scores
        else
          let sorted_indices = np_argsort env expected_scores;
              allowed_second_guesses = get_word_list env game_name;
              pushed_up = map (\<lambda>x. x + 1) expected_scores
          in foldM (\<lambda>i scores.
               bindM (liftE (py_index allowed_words i)) (\<lambda>guess.
               bindM (liftE (py_index h1s i)) (\<lambda>h1.
               bindM (get_pattern_distributions env [guess] possible_words weights game_name) (\<lambda>dists.
               bindM (liftE (py_index dists 0)) (\<lambda>pdist.
               bindM (get_word_buckets env guess possible_words game_name) (\<lambda>buckets.
               bindM (mapM (\<lambda>bucket st'.
                        optimal_guess env allowed_second_guesses bucket priors game_name
                          False False False st') buckets) (\<lambda>second_guesses.
               bindM (mapM (\<lambda>(guess2, bucket).
                        bindM (liftE (get_weights bucket priors)) (\<lambda>bucket_weights.
                        bindM (get_entropies env [guess2] bucket bucket_weights game_name) (\<lambda>h2.
                        liftE (py_index h2 0))))
                      (zip second_guesses buckets)) (\<lambda>h2s.
               let prob = dict_get word_to_weight guess 0 in
               bindM (liftE (two_step_score prob word_to_weight h0 h1 pdist second_guesses h2s)) (\<lambda>v.
               liftE (np_set scores i v))))))))))
             (py_take n_top_candidates_for_two_step sorted_indices) pushed_up))))) st)"
| "optimal_guess env allowed_words possible_words priors game_name look_two_ahead
       optimize_for_uniform_distribution purely_maximize_information st =
     (if purely_maximize_information then
        (if length possible_words = 1 then (Inr (possible_words ! 0), st)
         else
           bindM (liftE (get_weights possible_words priors)) (\<lambda>weights.
           bindM (get_entropies env allowed_words possible_words weights game_name) (\<lambda>entropies.
           bindM (liftE (np_argmax entropies)) (\<lambda>i.
           liftE (py_index allowed_words i)))) st)
      else if length allowed_words = 0 then (Inl ValueError, st)
      else
        bindM (\<lambda>st'.
          if optimize_for_uniform_distribution
          then get_score_lower_bounds env allowed_words possible_words game_name st'
          else get_expected_scores env allowed_words possible_words priors game_name
                 look_two_ahead 25 st') (\<lambda>expected_scores.
        if length expected_scores = 0 then raiseM ValueError
        else bindM (liftE (np_argmin expected_scores)) (\<lambda>i.
             liftE (py_index allowed_words i))) st)"
  by pat_completeness auto
termination
  by (relation "measure (\<lambda>x. case x of
        Inl (_, _, _, _, _, look_two_ahead, _, _) \<Rightarrow> (if look_two_ahead then 2 else 0)
      | Inr (_, _, _, _, _, look_two_ahead, _, _, _) \<Rightarrow> (if look_two_ahead then 3 else 1))")
     auto

declare get_expected_scores.simps [simp del] optimal_guess.simps [simp del]

section \<open>An example environment\<close>

text \<open>
  Modelled from the spec: the Pattern Encoder of section 4.1, whose source module
  \<open>pattern_utils\<close> is not among the verified sources. The answer's letters at the
  positions that are not exact matches are the remaining multiset; an exact position gets
  digit 2, another position gets digit 1 and consumes a remaining letter if there is one,
  and digit 0 otherwise; the digits are read in base 3, position 0 least significant.
\<close>

fun second_pass :: "(char \<times> char) list \<Rightarrow> char list \<Rightarrow> nat list" where
  "second_pass [] remaining = []"
| "second_pass ((g, a) # rest) remaining =
     (if g = a then 2 # second_pass rest remaining
      else if g \<in> set remaining then 1 # second_pass rest (remove1 g remaining)
      else 0 # second_pass rest remaining)"

definition encode :: "word \<Rightarrow> word \<Rightarrow> pattern" where
  "encode guess answer =
     (let pairs = zip guess answer;
          remaining = map snd (filter (\<lambda>(g, a). g \<noteq> a) pairs);
          digits = second_pass pairs remaining
      in foldr (\<lambda>d acc. d + 3 * acc) digits 0)"

text \<open>The weight of the possible answers whose pattern in \<open>row\<close> is \<open>p\<close> (section 4.5).\<close>

definition bucket_weight :: "pattern list \<Rightarrow> real list \<Rightarrow> pattern \<Rightarrow> real" where
  "bucket_weight row weights p = (\<Sum>(x, w)\<leftarrow>zip row weights. if x = p then w else 0)"

text \<open>
  The environment of the examples: two games with two words each, grids built with
  \<open>encode\<close>, a stable \<open>argsort\<close>. The examples that reach the entropy engine have one
  possible answer, where every distribution is a point mass: every entropy is 0 and every
  guess leaves one non-empty bucket.
\<close>

definition example_env :: env where
  "example_env =
     \<lparr>get_word_list = (\<lambda>g. if g = ''wordle'' then [''crane'', ''slate'']
                          else if g = ''dungleon'' then [''hello'', ''world''] else []),
      get_pattern_matrix_fname = (\<lambda>g. g @ ''.npy''),
      generate_full_pattern_matrix_in_blocks = (\<lambda>ws. map (\<lambda>g. map (encode g) ws) ws),
      generate_pattern_matrix = (\<lambda>ws1 ws2. map (\<lambda>g. map (encode g) ws2) ws1),
      entropy_of_distributions = (\<lambda>ps. 0),
      get_entropies = (\<lambda>allowed possible weights game st. (Inr (replicate (length allowed) 0), st)),
      get_pattern_distributions = (\<lambda>allowed possible weights game st.
         (Inr (map (\<lambda>g. map (bucket_weight (map (encode g) possible) weights) [0..<3 ^ 5]) allowed),
          st)),
      get_bucket_counts = (\<lambda>allowed possible game st. (Inr (replicate (length allowed) 1), st)),
      np_argsort = (\<lambda>xs. sort_key (\<lambda>i. xs ! i) [0..<length xs])\<rparr>"

text \<open>A fresh process: nothing cached, nothing stored.\<close>

definition fresh :: state where
  "fresh = \<lparr>PATTERN_GRID_DATA = \<lparr>grid = None, words_to_index = None\<rparr>, files = Map.empty\<rparr>"

text \<open>The process after its first query, which was for the game \<open>wordle\<close>.\<close>

definition wordle_loaded :: state where
  "wordle_loaded =
     \<lparr>PATTERN_GRID_DATA =
        \<lparr>grid = Some [[242, 180], [180, 242]],
         words_to_index = Some [''crane'' \<mapsto> 0, ''slate'' \<mapsto> 1]\<rparr>,
      files = [''wordle.npy'' \<mapsto> [[242, 180], [180, 242]]]\<rparr>"

section \<open>Notions used to state the properties\<close>

text \<open>The state a query leaves behind: populated first if the dictionary was empty.\<close>

definition cache_after :: "env \<Rightarrow> game \<Rightarrow> state \<Rightarrow> state" where
  "cache_after env G st =
     (if dict_is_empty (PATTERN_GRID_DATA st) then snd (populate env G st) else st)"

text \<open>
  The quantities of the specification's scoring model (sections 3 and 4.6), written from
  its formulas, to be compared with what \<open>solver.py\<close> computes. The weight of a word in a
  subset is its prior divided by the sum of the priors over the subset, zero when that sum
  is zero; the probability that a candidate is correct is its own weight among the possible
  answers, zero when it is not a possible answer.
\<close>

definition spec_weight :: "(word \<rightharpoonup> real) \<Rightarrow> word list \<Rightarrow> word \<Rightarrow> real" where
  "spec_weight priors ws w =
     (if (\<Sum>v\<leftarrow>ws. the (priors v)) = 0 then 0
      else the (priors w) / (\<Sum>v\<leftarrow>ws. the (priors v)))"

definition spec_prob_correct :: "(word \<rightharpoonup> real) \<Rightarrow> word list \<Rightarrow> word \<Rightarrow> real" where
  "spec_prob_correct priors possible w =
     (if w \<in> set possible then spec_weight priors possible w else 0)"

definition spec_expected_remaining :: "real \<Rightarrow> real" where
  "spec_expected_remaining e = 2 powr (- e) + 2 * (1 - 2 powr (- e)) + 1.5 * e / 11.5"

definition spec_one_ply_score :: "real \<Rightarrow> real \<Rightarrow> real \<Rightarrow> real" where
  "spec_one_ply_score prob_correct h0 h1 =
     prob_correct + (1 - prob_correct) * (1 + spec_expected_remaining (h0 - h1))"


section \<open>Properties of the matrix cache\<close>

lemma populate_result:
  "populate env G st =
     (Inr (), (if files st (get_pattern_matrix_fname env G) = None
               then st\<lparr>files := (files st)(get_pattern_matrix_fname env G \<mapsto>
                        generate_full_pattern_matrix_in_blocks env (get_word_list env G))\<rparr>
               else st)
        \<lparr>PATTERN_GRID_DATA :=
           \<lparr>grid = Some (case files st (get_pattern_matrix_fname env G) of
                           None \<Rightarrow> generate_full_pattern_matrix_in_blocks env (get_word_list env G)
                         | Some m \<Rightarrow> m),
            words_to_index = Some (dict_zip_count (get_word_list env G))\<rparr>\<rparr>)"
  by (auto simp add: populate_def generate_full_pattern_matrix_def Let_def split: option.splits)

lemma get_pattern_matrix_eq:
  "get_pattern_matrix env ws1 ws2 G st =
     (select_patterns (PATTERN_GRID_DATA (cache_after env G st)) ws1 ws2, cache_after env G st)"
  by (simp add: get_pattern_matrix_def cache_after_def populate_result)

lemma cache_after_nonempty: "\<not> dict_is_empty (PATTERN_GRID_DATA (cache_after env G st))"
  by (simp add: cache_after_def populate_result dict_is_empty_def)

lemma cache_after_idem: "\<not> dict_is_empty (PATTERN_GRID_DATA st) \<Longrightarrow> cache_after env G st = st"
  by (simp add: cache_after_def)

lemma lookup_words_cases:
  "lookup_words m ws = (if set ws \<subseteq> dom m then Inr (map (\<lambda>w. the (m w)) ws) else Inl KeyError)"
  by (induction ws) (auto split: option.splits sum.splits)

lemma select_patterns_row_Inr:
  assumes "select_patterns d [guess] ws = Inr M"
  shows "\<exists>g m i. grid d = Some g \<and> words_to_index d = Some m \<and> m guess = Some i \<and> i < length g
            \<and> (\<forall>w\<in>set ws. \<exists>j. m w = Some j \<and> j < ncols g)
            \<and> M = [map (\<lambda>w. g ! i ! the (m w)) ws]"
  using assms
  by (fastforce simp add: select_patterns_def lookup_words_cases ix_select_def comp_def
        split: option.splits if_splits)

lemma select_patterns_row:
  assumes "grid d = Some g" "words_to_index d = Some m" "m guess = Some i" "i < length g"
    and "\<forall>w\<in>set ws. \<exists>j. m w = Some j \<and> j < ncols g"
  shows "select_patterns d [guess] ws = Inr [map (\<lambda>w. g ! i ! the (m w)) ws]"
proof -
  have "set ws \<subseteq> dom m" using assms(5) by auto
  moreover have "\<forall>j\<in>set (map (\<lambda>w. the (m w)) ws). j < ncols g" using assms(5) by auto
  moreover have "guess \<in> dom m" using assms(3) by auto
  ultimately show ?thesis
    using assms(1-4) by (simp add: select_patterns_def lookup_words_cases ix_select_def comp_def)
qed

lemma filter_zip_map:
  "map fst (filter (\<lambda>(w, p). p = pat) (zip ws (map f ws))) = filter (\<lambda>w. f w = pat) ws"
  by (induction ws) auto

lemma get_pattern_matrix_row:
  assumes "grid (PATTERN_GRID_DATA st) = Some g" "words_to_index (PATTERN_GRID_DATA st) = Some m"
    and "m guess = Some i" "i < length g"
    and "\<forall>w\<in>set word_list. \<exists>j. m w = Some j \<and> j < ncols g"
  shows "get_pattern_matrix env [guess] word_list game_name st =
           (Inr [map (\<lambda>w. g ! i ! the (m w)) word_list], st)"
proof -
  have ne: "\<not> dict_is_empty (PATTERN_GRID_DATA st)"
    using assms(1) by (simp add: dict_is_empty_def)
  show ?thesis
    using select_patterns_row[OF assms] by (simp add: get_pattern_matrix_eq cache_after_idem[OF ne])
qed

lemma example_dict_wordle: "dict_zip_count [''crane'', ''slate''] = [''crane'' \<mapsto> 0, ''slate'' \<mapsto> 1]"
  by (simp add: dict_zip_count_def dict_of_pairs_def)

lemma example_grid_wordle:
  "generate_full_pattern_matrix_in_blocks example_env [''crane'', ''slate'']
     = [[242, 180], [180, 242]]"
  by (simp add: example_env_def encode_def)


lemma example_words_wordle: "get_word_list example_env ''wordle'' = [''crane'', ''slate'']"
  by (simp add: example_env_def)

lemma example_fname_wordle: "get_pattern_matrix_fname example_env ''wordle'' = ''wordle.npy''"
  by (simp add: example_env_def)

lemma example_cache_after_fresh: "cache_after example_env ''wordle'' fresh = wordle_loaded"
  by (simp add: cache_after_def populate_result example_words_wordle example_grid_wordle
        example_dict_wordle example_fname_wordle fresh_def wordle_loaded_def dict_is_empty_def
        del: One_nat_def)





lemma fresh_empty: "dict_is_empty (PATTERN_GRID_DATA fresh)"
  by (simp add: fresh_def dict_is_empty_def)





section \<open>Properties of filtering and of the single-pair lookup\<close>

lemma wordle_loaded_grid: "grid (PATTERN_GRID_DATA wordle_loaded) = Some [[242, 180], [180, 242]]"
  by (simp add: wordle_loaded_def)

lemma wordle_loaded_index:
  "words_to_index (PATTERN_GRID_DATA wordle_loaded) = Some [''crane'' \<mapsto> 0, ''slate'' \<mapsto> 1]"
  by (simp add: wordle_loaded_def)

text \<open>
  Claim C10. When the cache is loaded with grid \<open>g\<close> and index \<open>m\<close>, the guess is indexed
  at a row of the grid and every word of \<open>word_list\<close> is indexed at a column of the grid,
  \<open>get_possible_words\<close> returns exactly the words of \<open>word_list\<close> whose cached pattern
  against the guess equals \<open>pattern\<close>, in the order of \<open>word_list\<close>, and leaves the state
  unchanged.
\<close>

theorem get_possible_words_exact:
  assumes "grid (PATTERN_GRID_DATA st) = Some g" "words_to_index (PATTERN_GRID_DATA st) = Some m"
    and "m guess = Some i" "i < length g"
    and "\<forall>w\<in>set word_list. \<exists>j. m w = Some j \<and> j < ncols g"
  shows "get_possible_words env guess pattern word_list game_name st =
           (Inr (filter (\<lambda>w. g ! i ! the (m w) = pattern) word_list), st)"
proof -
  have "get_pattern_matrix env [guess] word_list game_name st =
          (Inr [map (\<lambda>w. g ! i ! the (m w)) word_list], st)"
    using assms by (rule get_pattern_matrix_row)
  then have "get_possible_words env guess pattern word_list game_name st =
          (Inr (map fst (filter (\<lambda>(w, p). p = pattern)
                  (zip word_list (map (\<lambda>w. g ! i ! the (m w)) word_list)))), st)"
    by (simp add: get_possible_words_def)
  then show ?thesis
    by (simp only: filter_zip_map)
qed

theorem get_possible_words_exact_witness:
  "get_possible_words example_env ''crane'' 180 [''crane'', ''slate'', ''crane''] ''wordle''
     wordle_loaded = (Inr [''slate''], wordle_loaded)
   \<and> get_possible_words example_env ''crane'' 242 [''crane'', ''slate'', ''crane''] ''wordle''
     wordle_loaded = (Inr [''crane'', ''crane''], wordle_loaded)"
proof -
  have i: "[''crane'' \<mapsto> 0::nat, ''slate'' \<mapsto> 1] ''crane'' = Some 0" by simp
  have l: "(0::nat) < length [[242, 180], [180, 242::nat]]" by simp
  have r: "\<forall>w\<in>set [''crane'', ''slate'', ''crane''].
             \<exists>j. [''crane'' \<mapsto> 0::nat, ''slate'' \<mapsto> 1] w = Some j \<and> j < ncols [[242, 180], [180, 242]]"
    by (simp add: ncols_def)
  show ?thesis
    using get_possible_words_exact[OF wordle_loaded_grid wordle_loaded_index i l r,
            of example_env 180 "''wordle''"]
          get_possible_words_exact[OF wordle_loaded_grid wordle_loaded_index i l r,
            of example_env 242 "''wordle''"]
    by simp
qed

text \<open>
  Claim C7. Filtering is idempotent: when \<open>get_possible_words\<close> returns a list, filtering
  that list again with the same guess and pattern, in the state the first call left,
  returns the same list and leaves that state unchanged.
\<close>

theorem get_possible_words_idempotent:
  assumes "get_possible_words env guess pattern word_list game_name st = (Inr ws, st1)"
  shows "get_possible_words env guess pattern ws game_name st1 = (Inr ws, st1)"
proof -
  from assms obtain M where M: "select_patterns (PATTERN_GRID_DATA st1) [guess] word_list = Inr M"
    and ws: "ws = map fst (filter (\<lambda>(w, p). p = pattern) (zip word_list (concat M)))"
    by (auto simp add: get_possible_words_def get_pattern_matrix_eq Let_def split: sum.splits)
  from select_patterns_row_Inr[OF M] obtain g m i where
    g: "grid (PATTERN_GRID_DATA st1) = Some g" and m: "words_to_index (PATTERN_GRID_DATA st1) = Some m"
    and i: "m guess = Some i" "i < length g"
    and r: "\<forall>w\<in>set word_list. \<exists>j. m w = Some j \<and> j < ncols g"
    and Meq: "M = [map (\<lambda>w. g ! i ! the (m w)) word_list]" by blast
  have ws': "ws = filter (\<lambda>w. g ! i ! the (m w) = pattern) word_list"
    using ws Meq by (simp add: filter_zip_map)
  have "\<forall>w\<in>set ws. \<exists>j. m w = Some j \<and> j < ncols g" using r ws' by auto
  from get_pattern_matrix_row[OF g m i this, of env game_name]
  have "get_possible_words env guess pattern ws game_name st1 =
          (Inr (filter (\<lambda>w. g ! i ! the (m w) = pattern) ws), st1)"
    by (simp add: get_possible_words_def filter_zip_map)
  then show ?thesis by (simp add: ws')
qed

lemma example_filter_fresh:
  "get_possible_words example_env ''crane'' 180 [''crane'', ''slate''] ''wordle'' fresh
     = (Inr [''slate''], wordle_loaded)"
  by (simp add: get_possible_words_def get_pattern_matrix_eq example_cache_after_fresh)
     (simp add: wordle_loaded_def select_patterns_def ix_select_def ncols_def)

theorem get_possible_words_idempotent_witness:
  "get_possible_words example_env ''crane'' 180 [''crane'', ''slate''] ''wordle'' fresh
     = (Inr [''slate''], wordle_loaded)
   \<and> get_possible_words example_env ''crane'' 180 [''slate''] ''wordle'' wordle_loaded
     = (Inr [''slate''], wordle_loaded)"
  using get_possible_words_idempotent[OF example_filter_fresh] example_filter_fresh by simp

text \<open>
  Claim C8. When the cache holds a grid \<open>g\<close> and an index \<open>m\<close> that has both words, at a
  row and a column of the grid, \<open>get_pattern\<close> returns the entry of the loaded grid,
  whatever game identifier it is called with. When the cache is empty, or its index lacks
  one of the two words, \<open>get_pattern\<close> returns the result of the direct encoder call. In
  both cases the state is left unchanged: no grid is built or loaded.
\<close>

theorem get_pattern_cached_or_direct:
  "(grid (PATTERN_GRID_DATA st) = Some g \<and> words_to_index (PATTERN_GRID_DATA st) = Some m
      \<and> m guess = Some i \<and> m answer = Some j \<and> i < length g \<and> j < ncols g
     \<longrightarrow> get_pattern env guess answer game_name st = (Inr (g ! i ! j), st))
   \<and> (dict_is_empty (PATTERN_GRID_DATA st)
        \<or> (words_to_index (PATTERN_GRID_DATA st) = Some m \<and> (m guess = None \<or> m answer = None))
     \<longrightarrow> get_pattern env guess answer game_name st =
           (at00 (generate_pattern_matrix env [guess] [answer]), st))"
proof (intro conjI impI)
  assume a: "grid (PATTERN_GRID_DATA st) = Some g \<and> words_to_index (PATTERN_GRID_DATA st) = Some m
      \<and> m guess = Some i \<and> m answer = Some j \<and> i < length g \<and> j < ncols g"
  then have ne: "\<not> dict_is_empty (PATTERN_GRID_DATA st)" by (simp add: dict_is_empty_def)
  have "select_patterns (PATTERN_GRID_DATA st) [guess] [answer] = Inr [[g ! i ! j]]"
    using a by (simp add: select_patterns_def ix_select_def)
  then show "get_pattern env guess answer game_name st = (Inr (g ! i ! j), st)"
    using a ne by (auto simp add: get_pattern_def get_pattern_matrix_eq cache_after_idem at00_def)
next
  assume "dict_is_empty (PATTERN_GRID_DATA st)
        \<or> (words_to_index (PATTERN_GRID_DATA st) = Some m \<and> (m guess = None \<or> m answer = None))"
  then show "get_pattern env guess answer game_name st =
           (at00 (generate_pattern_matrix env [guess] [answer]), st)"
    by (auto simp add: get_pattern_def dict_is_empty_def)
qed

theorem get_pattern_cached_or_direct_witness:
  "get_pattern example_env ''crane'' ''slate'' ''dungleon'' wordle_loaded = (Inr 180, wordle_loaded)
   \<and> get_pattern example_env ''hello'' ''world'' ''dungleon'' wordle_loaded
       = (Inr 135, wordle_loaded)
   \<and> get_pattern example_env ''hello'' ''world'' ''dungleon'' fresh = (Inr 135, fresh)"
proof -
  have e: "at00 (generate_pattern_matrix example_env [''hello''] [''world'']) = Inr 135"
    by (simp add: example_env_def at00_def encode_def)
  have n: "[''crane'' \<mapsto> 0::nat, ''slate'' \<mapsto> 1] ''hello'' = None" by simp
  show ?thesis
    using get_pattern_cached_or_direct
            [of wordle_loaded "[[242, 180], [180, 242]]" "[''crane'' \<mapsto> 0, ''slate'' \<mapsto> 1]"
                "''crane''" 0 "''slate''" 1 example_env "''dungleon''"]
          get_pattern_cached_or_direct
            [of wordle_loaded "[[242, 180], [180, 242]]" "[''crane'' \<mapsto> 0, ''slate'' \<mapsto> 1]"
                "''hello''" 0 "''world''" 1 example_env "''dungleon''"]
          get_pattern_cached_or_direct
            [of fresh "[]" "Map.empty" "''hello''" 0 "''world''" 0 example_env "''dungleon''"]
    by (simp add: wordle_loaded_grid wordle_loaded_index fresh_empty e n ncols_def)
qed

section \<open>Properties of the weights and of the selector\<close>

lemma sum_list_divide: "(\<Sum>x\<leftarrow>xs. f x / (t::real)) = (\<Sum>x\<leftarrow>xs. f x) / t"
  by (induction xs) (simp_all add: add_divide_distrib)

lemma example_weights:
  "get_weights [''crane'', ''slate''] [''crane'' \<mapsto> 3, ''slate'' \<mapsto> 1] = Inr [3 / 4, 1 / 4]"
  by (simp add: get_weights_def)

text \<open>
  Claim C9. For a list of words that all have a prior, \<open>get_weights\<close> returns, when the sum
  of the priors over the list is not zero, the prior of each word divided by that sum, and
  these weights sum to one; when the sum is zero it returns a weight of zero for every
  word. (The priors need not be nonnegative for this; arithmetic is that of the reals.)
\<close>

theorem get_weights_normalises:
  assumes "set words \<subseteq> dom priors"
  shows "get_weights words priors =
           Inr (if (\<Sum>v\<leftarrow>words. the (priors v)) = 0 then replicate (length words) 0
                else map (\<lambda>w. the (priors w) / (\<Sum>v\<leftarrow>words. the (priors v))) words)
         \<and> ((\<Sum>v\<leftarrow>words. the (priors v)) \<noteq> 0 \<longrightarrow>
              (\<Sum>w\<leftarrow>words. the (priors w) / (\<Sum>v\<leftarrow>words. the (priors v))) = 1)"
proof -
  have "lookup_words priors words = Inr (map (\<lambda>w. the (priors w)) words)"
    using assms by (simp add: lookup_words_cases)
  then have "get_weights words priors =
           Inr (if (\<Sum>v\<leftarrow>words. the (priors v)) = 0 then replicate (length words) 0
                else map (\<lambda>w. the (priors w) / (\<Sum>v\<leftarrow>words. the (priors v))) words)"
    by (simp add: get_weights_def Let_def comp_def)
  moreover have "(\<Sum>v\<leftarrow>words. the (priors v)) \<noteq> 0 \<longrightarrow>
              (\<Sum>w\<leftarrow>words. the (priors w) / (\<Sum>v\<leftarrow>words. the (priors v))) = 1"
    by (simp add: sum_list_divide)
  ultimately show ?thesis by simp
qed

theorem get_weights_normalises_witness:
  "set [''crane'', ''slate''] \<subseteq> dom [''crane'' \<mapsto> 3::real, ''slate'' \<mapsto> 1]
   \<and> get_weights [''crane'', ''slate''] [''crane'' \<mapsto> 3, ''slate'' \<mapsto> 1] = Inr [3 / 4, 1 / 4]
   \<and> (3::real) / 4 + 1 / 4 = 1
   \<and> set [''crane'', ''slate''] \<subseteq> dom [''crane'' \<mapsto> 0::real, ''slate'' \<mapsto> 0]
   \<and> get_weights [''crane'', ''slate''] [''crane'' \<mapsto> 0, ''slate'' \<mapsto> 0] = Inr [0, 0]"
  using get_weights_normalises [of "[''crane'', ''slate'']" "[''crane'' \<mapsto> 3, ''slate'' \<mapsto> 1]"]
        get_weights_normalises [of "[''crane'', ''slate'']" "[''crane'' \<mapsto> 0, ''slate'' \<mapsto> 0]"]
  by simp

lemma get_weights_map:
  assumes "set words \<subseteq> dom priors"
  shows "get_weights words priors = Inr (map (spec_weight priors words) words)"
proof -
  have "replicate (length words) (0::real) = map (\<lambda>w. 0) words"
    by (simp add: map_replicate_const)
  then show ?thesis
    using assms
    by (simp add: get_weights_def lookup_words_cases Let_def comp_def spec_weight_def)
qed

lemma fold_upd_zip_map:
  "fold (\<lambda>(k, v) m. m(k \<mapsto> v)) (zip ks (map f ks)) m0 k
     = (if k \<in> set ks then Some (f k) else m0 k)"
  by (induction ks arbitrary: m0) auto

lemma dict_get_zip_map:
  "dict_get (dict_of_pairs (zip ks (map f ks))) k d = (if k \<in> set ks then f k else d)"
  by (simp add: dict_get_def dict_of_pairs_def fold_upd_zip_map)

lemma np_bin_same_length: "length xs = length ys \<Longrightarrow> np_bin f xs ys = Inr (map2 f xs ys)"
  by (simp add: np_bin_def)

lemma entropy_to_expected_score_0: "entropy_to_expected_score 0 = 1"
  by (simp add: entropy_to_expected_score_def)

lemma example_entropies:
  "get_entropies example_env [''crane'', ''slate''] [''slate''] ws ''wordle'' wordle_loaded
     = (Inr [0, 0], wordle_loaded)"
  by (simp add: example_env_def returnM_def)

lemma example_one_ply:
  "get_expected_scores example_env [''crane'', ''slate''] [''slate''] [''slate'' \<mapsto> 1] ''wordle''
     False K wordle_loaded = (Inr [2, 1], wordle_loaded)"
  by (subst get_expected_scores.simps)
     (simp add: bindM_def liftE_def returnM_def get_weights_def np_bin_def dict_zip_strict_def
        dict_of_pairs_def dict_get_def entropy_to_expected_score_0 example_env_def Let_def)

lemma example_argmin: "np_argmin [2, 1] = Inr 1"
  by (simp add: np_argmin_def upt_rec)

lemma example_optimal_guess:
  "optimal_guess example_env [''crane'', ''slate''] [''slate''] [''slate'' \<mapsto> 1] ''wordle''
     False False False wordle_loaded = (Inr ''slate'', wordle_loaded)"
  by (subst optimal_guess.simps)
     (simp add: bindM_def liftE_def example_one_ply example_argmin py_index_def)

text \<open>
  Claim C2, as amended. A word that \<open>optimal_guess\<close> returns is an element of the allowed
  words, except under pure information maximisation when exactly one possible answer
  remains: then the call returns that answer, without looking at the allowed words.
\<close>

theorem optimal_guess_member:
  assumes "optimal_guess env allowed_words possible_words priors game_name look_two_ahead
             optimize_for_uniform_distribution purely_maximize_information st = (Inr w, st')"
  shows "w \<in> set allowed_words \<or> (purely_maximize_information \<and> possible_words = [w])"
proof (cases "purely_maximize_information \<and> length possible_words = 1")
  case True
  then have "optimal_guess env allowed_words possible_words priors game_name look_two_ahead
               optimize_for_uniform_distribution purely_maximize_information st
             = (Inr (possible_words ! 0), st)"
    by (subst optimal_guess.simps) simp
  with assms have "w = possible_words ! 0" by simp
  with True show ?thesis by (auto simp add: length_Suc_conv)
next
  case False
  with assms have "\<exists>i < length allowed_words. w = allowed_words ! i"
    by (subst (asm) optimal_guess.simps)
       (auto simp add: bindM_def liftE_def raiseM_def py_index_def
             split: if_splits sum.splits prod.splits)
  then show ?thesis by auto
qed

theorem optimal_guess_member_witness:
  "optimal_guess example_env [''crane'', ''slate''] [''slate''] [''slate'' \<mapsto> 1] ''wordle''
     False False False wordle_loaded = (Inr ''slate'', wordle_loaded)
   \<and> ''slate'' \<in> set [''crane'', ''slate'']"
  using optimal_guess_member [OF example_optimal_guess] example_optimal_guess by simp

text \<open>
  The claim C2 as it is stated fails: under pure information maximisation, with the allowed
  words \<open>[crane]\<close> and the single possible answer \<open>slate\<close>, the call returns \<open>slate\<close>,
  which is not an allowed word.
\<close>

theorem optimal_guess_not_allowed:
  "optimal_guess example_env [''crane''] [''slate''] Map.empty ''wordle'' False False True fresh
     = (Inr ''slate'', fresh)
   \<and> ''slate'' \<notin> set [''crane'']"
  by (subst optimal_guess.simps) simp

text \<open>
  Claim C3, as amended. With no allowed word, expected-score minimisation and the uniform
  lower bound raise \<open>ValueError\<close> and leave the state unchanged. Pure information
  maximisation raises an error too unless exactly one possible answer remains: then it
  returns that answer.
\<close>

theorem optimal_guess_empty_allowed:
  "optimal_guess env [] possible_words priors game_name look_two_ahead
      optimize_for_uniform_distribution False st = (Inl ValueError, st)
   \<and> optimal_guess env [] [w] priors game_name look_two_ahead
        optimize_for_uniform_distribution True st = (Inr w, st)
   \<and> (length possible_words \<noteq> 1 \<longrightarrow>
        (\<exists>e st'. optimal_guess env [] possible_words priors game_name look_two_ahead
                    optimize_for_uniform_distribution True st = (Inl e, st')))"
proof (intro conjI impI)
  show "optimal_guess env [] possible_words priors game_name look_two_ahead
      optimize_for_uniform_distribution False st = (Inl ValueError, st)"
    by (subst optimal_guess.simps) simp
  show "optimal_guess env [] [w] priors game_name look_two_ahead
        optimize_for_uniform_distribution True st = (Inr w, st)"
    by (subst optimal_guess.simps) simp
  assume "length possible_words \<noteq> 1"
  then show "\<exists>e st'. optimal_guess env [] possible_words priors game_name look_two_ahead
                    optimize_for_uniform_distribution True st = (Inl e, st')"
    by (subst optimal_guess.simps)
       (auto simp add: bindM_def liftE_def py_index_def split: sum.splits prod.splits)
qed

theorem optimal_guess_empty_allowed_witness:
  "optimal_guess example_env [] [''crane'', ''slate''] Map.empty ''wordle'' False False False fresh
     = (Inl ValueError, fresh)
   \<and> optimal_guess example_env [] [''crane'', ''slate''] Map.empty ''wordle'' False True False fresh
     = (Inl ValueError, fresh)
   \<and> optimal_guess example_env [] [''crane''] Map.empty ''wordle'' False False True fresh
     = (Inr ''crane'', fresh)
   \<and> length [''crane'', ''slate''] \<noteq> 1
   \<and> (\<exists>e st'. optimal_guess example_env [] [''crane'', ''slate''] Map.empty ''wordle''
                 False False True fresh = (Inl e, st'))"
  using optimal_guess_empty_allowed
          [of example_env "[''crane'', ''slate'']" Map.empty "''wordle''" False False fresh
              "''crane''"]
        optimal_guess_empty_allowed
          [of example_env "[''crane'', ''slate'']" Map.empty "''wordle''" False True fresh
              "''crane''"]
  by simp

text \<open>
  The claim C3 as it is stated fails: with no allowed word and the single possible answer
  \<open>crane\<close>, pure information maximisation returns \<open>crane\<close> and raises nothing.
\<close>

theorem optimal_guess_empty_allowed_returns:
  "optimal_guess example_env [] [''crane''] Map.empty ''wordle'' False False True fresh
     = (Inr ''crane'', fresh)"
  by (subst optimal_guess.simps) simp

section \<open>Properties of the expected scores\<close>

text \<open>
  Claim C5. With the two-ply lookahead disabled, a non-empty list of possible answers that
  all have a prior, and \<open>get_entropies\<close> returning one post-guess entropy \<open>h1\<close> for each
  allowed word, \<open>get_expected_scores\<close> returns for each allowed word \<open>w\<close> the score
  \<open>prob_correct + (1 - prob_correct) * (1 + expected_remaining (h0 - h1))\<close>, where \<open>h0\<close> is
  the entropy of the weights of the possible answers and \<open>prob_correct\<close> is the weight of
  \<open>w\<close> among the possible answers, zero when \<open>w\<close> is not one of them.
\<close>

theorem get_expected_scores_one_ply:
  assumes "possible_words \<noteq> []" "set possible_words \<subseteq> dom priors"
    and "get_entropies env allowed_words possible_words
           (map (spec_weight priors possible_words) possible_words) game_name st = (Inr h1s, st')"
    and "length h1s = length allowed_words"
  shows "get_expected_scores env allowed_words possible_words priors game_name False K st =
           (Inr (map2 (\<lambda>w h1. spec_one_ply_score (spec_prob_correct priors possible_words w)
                      (entropy_of_distributions env
                         (map (spec_weight priors possible_words) possible_words)) h1)
                  allowed_words h1s), st')"
proof -
  let ?weights = "map (spec_weight priors possible_words) possible_words"
  let ?h0 = "entropy_of_distributions env ?weights"
  let ?probs = "map (spec_prob_correct priors possible_words) allowed_words"
  have probs: "map (\<lambda>w. dict_get (dict_of_pairs (zip possible_words ?weights)) w 0) allowed_words
                 = ?probs"
    by (simp add: dict_get_zip_map spec_prob_correct_def)
  have scores: "map2 (+) ?probs
                  (map2 (*) (map (\<lambda>p. 1 - p) ?probs)
                     (map (\<lambda>h1. 1 + entropy_to_expected_score (?h0 - h1)) h1s))
                = map2 (\<lambda>w h1. spec_one_ply_score (spec_prob_correct priors possible_words w) ?h0 h1)
                    allowed_words h1s"
    using assms(4)
    by (intro nth_equalityI)
       (simp_all add: spec_one_ply_score_def entropy_to_expected_score_def
          spec_expected_remaining_def Let_def)
  have "get_expected_scores env allowed_words possible_words priors game_name False K st =
          (Inr (map2 (+) (map (\<lambda>w. dict_get (dict_of_pairs (zip possible_words ?weights)) w 0)
                            allowed_words)
                  (map2 (*) (map (\<lambda>p. 1 - p)
                               (map (\<lambda>w. dict_get (dict_of_pairs (zip possible_words ?weights)) w 0)
                                  allowed_words))
                     (map (\<lambda>h1. 1 + entropy_to_expected_score (?h0 - h1)) h1s))), st')"
    using assms(1,4)
    by (subst get_expected_scores.simps)
       (simp add: get_weights_map[OF assms(2)] bindM_def liftE_def assms(3) dict_zip_strict_def
          Let_def np_bin_same_length returnM_def del: map_map)
  then show ?thesis
    by (simp only: probs scores)
qed

theorem get_expected_scores_one_ply_witness:
  "[''slate''] \<noteq> [] \<and> set [''slate''] \<subseteq> dom [''slate'' \<mapsto> 1::real]
   \<and> get_entropies example_env [''crane'', ''slate''] [''slate'']
         (map (spec_weight [''slate'' \<mapsto> 1] [''slate'']) [''slate'']) ''wordle'' wordle_loaded
       = (Inr [0, 0], wordle_loaded)
   \<and> length [0::real, 0] = length [''crane'', ''slate'']
   \<and> get_expected_scores example_env [''crane'', ''slate''] [''slate''] [''slate'' \<mapsto> 1]
         ''wordle'' False 25 wordle_loaded = (Inr [2, 1], wordle_loaded)"
proof -
  have n: "[''slate''] \<noteq> []" and d: "set [''slate''] \<subseteq> dom [''slate'' \<mapsto> 1::real]"
    and l: "length [0::real, 0] = length [''crane'', ''slate'']"
    by simp_all
  have e: "get_entropies example_env [''crane'', ''slate''] [''slate'']
         (map (spec_weight [''slate'' \<mapsto> 1] [''slate'']) [''slate'']) ''wordle'' wordle_loaded
       = (Inr [0, 0], wordle_loaded)"
    by (rule example_entropies)
  have h0: "entropy_of_distributions example_env ws = 0" for ws
    by (simp add: example_env_def)
  have "get_expected_scores example_env [''crane'', ''slate''] [''slate''] [''slate'' \<mapsto> 1]
         ''wordle'' False 25 wordle_loaded = (Inr [2, 1], wordle_loaded)"
    using get_expected_scores_one_ply [OF n d e l, of 25]
    by (simp add: h0 spec_one_ply_score_def spec_prob_correct_def spec_weight_def
          spec_expected_remaining_def)
  with n d e l show ?thesis by simp
qed









end
